theory Spec2Isabelle
  imports Main "HOL-Library.Sublist"
begin

section \<open>Token budgets of the Claude client (client-claude.js)\<close>

text \<open>
  The client's configuration object. Token counts are JavaScript numbers holding
  integers; they are modelled as unbounded integers. The constructor merges the caller's
  overrides over the defaults below.
\<close>

record config =
  max_retries :: int
  request_timeout :: int
  context_window :: int
  thinking_budget_tokens :: int
  betas_max_tokens :: int
  desired_output_tokens :: int
  model_name :: string
  max_thinking_budget :: int
  max_tokens :: int

definition default_config :: config where
  "default_config =
     \<lparr> max_retries = 1,
       request_timeout = 300,
       context_window = 200000,
       thinking_budget_tokens = 32000,
       betas_max_tokens = 128000,
       desired_output_tokens = 8000,
       model_name = ''claude-3-7-sonnet-20250219'',
       max_thinking_budget = 20000,
       max_tokens = 32000 \<rparr>"

text \<open>The object returned by \<open>calculateTokenBudgets\<close>, field for field.\<close>

record token_budgets =
  contextWindow :: int
  promptTokens :: int
  availableTokens :: int
  maxTokens :: int
  thinkingBudget :: int
  desiredOutputTokens :: int
  betasMaxTokens :: int
  configuredThinkingBudget :: int
  capThinkingBudget :: bool
  isPromptTooLarge :: bool

definition calculateTokenBudgets :: "config \<Rightarrow> int \<Rightarrow> token_budgets" where
  "calculateTokenBudgets c prompt_tokens =
     (let cw = context_window c;
          desired = desired_output_tokens c;
          configured = thinking_budget_tokens c;
          betas_max = betas_max_tokens c;
          max_thinking = max_thinking_budget c;
          available = cw - prompt_tokens;
          max_tokens0 = min available betas_max;
          max_tokens1 = (if max_tokens0 > cw then available else max_tokens0);
          thinking0 = max_tokens1 - desired;
          cap = (thinking0 > max_thinking);
          thinking1 = (if cap then max_thinking else thinking0);
          too_large = (thinking1 < configured)
      in \<lparr> contextWindow = cw,
           promptTokens = prompt_tokens,
           availableTokens = available,
           maxTokens = max_tokens1,
           thinkingBudget = thinking1,
           desiredOutputTokens = desired,
           betasMaxTokens = betas_max,
           configuredThinkingBudget = configured,
           capThinkingBudget = cap,
           isPromptTooLarge = too_large \<rparr>)"

section \<open>The provider clients\<close>

text \<open>
  A thrown JavaScript \<open>Error\<close>, carrying its message. Every \<open>throw\<close> of the source is
  an \<open>Inl\<close> result of the model.
\<close>

datatype js_error = Error string

text \<open>
  JavaScript truthiness of a value that is \<open>undefined\<close>/\<open>null\<close> (\<open>None\<close>) or a string:
  the empty string is falsy.
\<close>

definition truthy :: "string option \<Rightarrow> bool" where
  "truthy v = (case v of None \<Rightarrow> False | Some s \<Rightarrow> s \<noteq> [])"

text \<open>
  What the three service classes share: \<open>this.client\<close> (set or not) and
  \<open>this.apiKeyMissing\<close>.
\<close>

record api_service =
  client :: bool
  apiKeyMissing :: bool

record claude_client = api_service +
  cfg :: config
  manuscriptContent :: "string option"

record openai_client = api_service +
  oa_model_name :: string
  prompt :: "string option"

text \<open>
  The constructors read the API key from the environment; without a key they set
  \<open>apiKeyMissing\<close> and return before anything else is initialised.
\<close>

definition claude_constructor :: "config \<Rightarrow> string option \<Rightarrow> claude_client" where
  "claude_constructor c apiKeyFromEnv =
     (if \<not> truthy apiKeyFromEnv
      then \<lparr> client = False, apiKeyMissing = True, cfg = c, manuscriptContent = None \<rparr>
      else \<lparr> client = True, apiKeyMissing = False, cfg = c, manuscriptContent = None \<rparr>)"

definition openai_constructor :: "string \<Rightarrow> string option \<Rightarrow> openai_client" where
  "openai_constructor m apiKeyFromEnv =
     (if \<not> truthy apiKeyFromEnv
      then \<lparr> client = False, apiKeyMissing = True, oa_model_name = m, prompt = None \<rparr>
      else \<lparr> client = True, apiKeyMissing = False, oa_model_name = m, prompt = None \<rparr>)"

text \<open>
  \<open>prepareFileAndCache\<close>. The result of \<open>fs.readFile\<close> is an input: \<open>Inl\<close> the message
  of the I/O error, \<open>Inr\<close> the content. The Claude client rejects a content that is empty
  after \<open>trim()\<close>; the white space recognised here is the ASCII part of what \<open>trim()\<close>
  strips (tab, line feed, vertical tab, form feed, carriage return, space). The length
  reported in the messages is rendered in decimal.
\<close>

fun decimal :: "nat \<Rightarrow> string" where
  "decimal n =
     (if n < 10 then [char_of (48 + n)]
      else decimal (n div 10) @ [char_of (48 + n mod 10)])"

declare decimal.simps [simp del]

definition is_space :: "char \<Rightarrow> bool" where
  "is_space ch = (let n = (of_char ch :: nat) in (9 \<le> n \<and> n \<le> 13) \<or> n = 32)"

record prepare_result =
  messages :: "string list"
  errors :: "string list"

definition claude_prepareFileAndCache ::
    "claude_client \<Rightarrow> string + string \<Rightarrow> prepare_result \<times> claude_client" where
  "claude_prepareFileAndCache cl file_read =
     (case file_read of
        Inl msg \<Rightarrow>
          (\<lparr> messages = [''Loading manuscript file...''],
             errors = [''Error loading manuscript: '' @ msg] \<rparr>,
           cl\<lparr>manuscriptContent := None\<rparr>)
      | Inr content \<Rightarrow>
          if list_all is_space content
          then (\<lparr> messages = [''Loading manuscript file...''],
                  errors = [''Error loading manuscript: Manuscript file is empty''] \<rparr>,
                cl\<lparr>manuscriptContent := None\<rparr>)
          else (\<lparr> messages = [''Loading manuscript file...'',
                              ''Manuscript file loaded successfully'',
                              ''Manuscript length: '' @ decimal (length content)
                                @ '' characters''],
                  errors = [] \<rparr>,
                cl\<lparr>manuscriptContent := Some content\<rparr>))"

definition openai_prepareFileAndCache ::
    "openai_client \<Rightarrow> string + string \<Rightarrow> prepare_result \<times> openai_client" where
  "openai_prepareFileAndCache cl file_read =
     (case file_read of
        Inl msg \<Rightarrow>
          (\<lparr> messages = [], errors = [''File read error: '' @ msg] \<rparr>, cl\<lparr>prompt := None\<rparr>)
      | Inr fileContent \<Rightarrow>
          (\<lparr> messages = [''Manuscript file loaded successfully.''], errors = [] \<rparr>,
           cl\<lparr>prompt := Some fileContent\<rparr>))"

definition clearFilesAndCaches :: "claude_client \<Rightarrow> claude_client" where
  "clearFilesAndCaches cl = cl\<lparr>manuscriptContent := None\<rparr>"

definition close :: "claude_client \<Rightarrow> claude_client" where
  "close cl = cl\<lparr>client := False, manuscriptContent := None\<rparr>"

text \<open>
  \<open>countTokens\<close> of the Claude client: \<open>- 1\<close> without a client or when the provider's
  counting call fails (\<open>None\<close>), the provider's \<open>input_tokens\<close> otherwise.
\<close>

definition countTokens :: "claude_client \<Rightarrow> int option \<Rightarrow> int" where
  "countTokens cl response =
     (if \<not> client cl \<or> apiKeyMissing cl then - 1
      else case response of None \<Rightarrow> - 1 | Some input_tokens \<Rightarrow> input_tokens)"

subsection \<open>The Claude stream\<close>

text \<open>The wire events of the provider's stream that the loop distinguishes.\<close>

datatype content_block = ThinkingBlock | TextBlock | OtherBlock

datatype delta = ThinkingDelta string | TextDelta string | OtherDelta

datatype stream_event =
    ContentBlockStart content_block
  | ContentBlockDelta delta
  | MessageStop
  | OtherEvent

text \<open>
  The arguments of the \<open>onText\<close> callback. The fixed banners and the interpolated
  warning, header and metadata texts are kept as tagged values with their interpolated
  parts; the deltas carry the streamed text itself.
\<close>

datatype text_out =
    PromptWarning int
  | RateLimitsHeading
  | RateLimitLine string string
  | BlankLine
  | ThinkingBanner
  | RespondingBanner
  | Thinking string
  | Text string
  | ResponseMetaData string int int int

text \<open>The request handed to \<open>client.messages.stream\<close>.\<close>

record model_options =
  mo_model :: string
  mo_max_tokens :: int
  mo_content :: string
  mo_budget_tokens :: int

text \<open>What a call does that is visible outside: provider requests and callback calls.\<close>

datatype io =
    CountTokensRequest string
  | StreamRequest model_options
  | OnText text_out

text \<open>
  The provider's answer to the stream request: the request is refused (the awaited call
  throws), or the stream opens with response headers, delivers wire events and then
  either ends or fails with an error.
\<close>

datatype stream_response =
    Refused string
  | Opened "(string \<times> string) list" "stream_event list" "string option"

definition toLowerCase :: "string \<Rightarrow> string" where
  "toLowerCase s =
     map (\<lambda>ch. let n = (of_char ch :: nat) in
                  if 65 \<le> n \<and> n \<le> 90 then char_of (n + 32) else ch) s"

fun includes_str :: "string \<Rightarrow> string \<Rightarrow> bool" where
  "includes_str [] pat = (pat = [])"
| "includes_str (ch # s) pat = (prefix pat (ch # s) \<or> includes_str s pat)"

definition rate_limit_lines :: "(string \<times> string) list \<Rightarrow> text_out list" where
  "rate_limit_lines headerEntries =
     map (\<lambda>(name, v). RateLimitLine name v)
       (filter (\<lambda>(name, v). includes_str (toLowerCase name) ''rate''
                             \<or> includes_str (toLowerCase name) ''limit'') headerEntries)"

text \<open>
  One iteration of the \<open>for await\<close> loop: the three \<open>if\<close> statements on the event's
  type, with the flags \<open>isThinking\<close> and \<open>isResponding\<close> as the loop state. The
  metadata written at \<open>message_stop\<close> holds the model name, the prompt tokens and the
  calculated budgets.
\<close>

fun stream_event_step ::
    "bool \<Rightarrow> bool \<Rightarrow> config \<Rightarrow> int \<Rightarrow> token_budgets \<Rightarrow> bool \<times> bool \<Rightarrow> stream_event
       \<Rightarrow> (bool \<times> bool) \<times> text_out list" where
  "stream_event_step includeMetaData includeThinking c pt budgets (isThinking, isResponding)
       (ContentBlockStart ThinkingBlock) =
     (if \<not> isThinking then ((True, isResponding), [ThinkingBanner])
      else ((isThinking, isResponding), []))"
| "stream_event_step includeMetaData includeThinking c pt budgets (isThinking, isResponding)
       (ContentBlockStart TextBlock) =
     (if \<not> isResponding then ((isThinking, True), [RespondingBanner])
      else ((isThinking, isResponding), []))"
| "stream_event_step includeMetaData includeThinking c pt budgets flags
       (ContentBlockStart OtherBlock) =
     (flags, [])"
| "stream_event_step includeMetaData includeThinking c pt budgets flags
       (ContentBlockDelta (ThinkingDelta t)) =
     (flags, if includeThinking then [Thinking t] else [])"
| "stream_event_step includeMetaData includeThinking c pt budgets flags
       (ContentBlockDelta (TextDelta t)) =
     (flags, [Text t])"
| "stream_event_step includeMetaData includeThinking c pt budgets flags
       (ContentBlockDelta OtherDelta) =
     (flags, [])"
| "stream_event_step includeMetaData includeThinking c pt budgets flags MessageStop =
     (flags,
      if includeMetaData
      then [ResponseMetaData (model_name c) pt (maxTokens budgets) (thinkingBudget budgets)]
      else [])"
| "stream_event_step includeMetaData includeThinking c pt budgets flags OtherEvent =
     (flags, [])"

fun stream_loop ::
    "bool \<Rightarrow> bool \<Rightarrow> config \<Rightarrow> int \<Rightarrow> token_budgets \<Rightarrow> bool \<times> bool \<Rightarrow> stream_event list
       \<Rightarrow> text_out list" where
  "stream_loop includeMetaData includeThinking c pt budgets flags [] = []"
| "stream_loop includeMetaData includeThinking c pt budgets flags (event # events) =
     (let (flags', out) =
            stream_event_step includeMetaData includeThinking c pt budgets flags event
      in out @ stream_loop includeMetaData includeThinking c pt budgets flags' events)"

text \<open>
  \<open>streamWithThinking\<close> of the Claude client. Inputs beyond the source's parameters are
  the provider's answers: to the token counting call and to the stream request. The
  result is what the call throws or returns, with everything it did before.
\<close>

definition claude_streamWithThinking ::
    "claude_client \<Rightarrow> string \<Rightarrow> bool \<Rightarrow> bool \<Rightarrow> bool \<Rightarrow> int option \<Rightarrow> stream_response
       \<Rightarrow> (js_error + unit) \<times> io list" where
  "claude_streamWithThinking cl prompt_arg noCache includeMetaData includeThinking
       count_response response =
     (if \<not> client cl \<or> apiKeyMissing cl
      then (Inl (Error ''Claude API client not initialized - API key missing''), [])
      else
        let fullPrompt =
              (case manuscriptContent cl of
                 Some m \<Rightarrow>
                   if truthy (Some m) \<and> \<not> noCache
                   then ''=== MANUSCRIPT ===\<newline>'' @ m
                          @ ''\<newline>=== END MANUSCRIPT ===\<newline>\<newline>'' @ prompt_arg
                   else prompt_arg
               | None \<Rightarrow> prompt_arg);
            prompt_tokens = countTokens cl count_response;
            budgets = calculateTokenBudgets (cfg cl) prompt_tokens;
            warning = (if isPromptTooLarge budgets
                       then [OnText (PromptWarning prompt_tokens)] else []);
            modelOptions =
              \<lparr> mo_model = model_name (cfg cl),
                mo_max_tokens = max_tokens (cfg cl),
                mo_content = fullPrompt,
                mo_budget_tokens = max_thinking_budget (cfg cl) \<rparr>;
            before = [CountTokensRequest fullPrompt] @ warning @ [StreamRequest modelOptions]
        in case response of
             Refused msg \<Rightarrow> (Inl (Error msg), before)
           | Opened headerEntries events failure \<Rightarrow>
               (case failure of None \<Rightarrow> Inr () | Some msg \<Rightarrow> Inl (Error msg),
                before
                @ (if includeMetaData
                   then map OnText ([RateLimitsHeading] @ rate_limit_lines headerEntries
                                    @ [BlankLine])
                   else [])
                @ map OnText
                    (stream_loop includeMetaData includeThinking (cfg cl) prompt_tokens budgets
                       (False, False) events)))"

subsection \<open>The OpenAI clients\<close>

text \<open>
  The Responses client (client-openai.js) opens a stream of events and stops reading at
  the first \<open>response.output_text.done\<close>; the Completions client
  (client_openai_completions.js) makes one request and calls \<open>onText\<close> once. Both check
  the API key and then the loaded manuscript before anything is sent. The requests are
  kept as the model name and the input text; the sampling parameters are left out.
\<close>

datatype openai_event = OutputTextDelta string | OutputTextDone | OtherOutput

text \<open>
  A call of \<open>onText\<close> by these clients passes a text, the response metadata (the
  heading and the JSON rendering of the model name), or a text with the metadata
  appended; the second component is the model name of the metadata, if any.
\<close>

datatype openai_io =
    ResponsesRequest string string
  | CompletionsRequest string string
  | OnTextOpenAI string "string option"

datatype openai_response =
    RefusedOpenAI string
  | Events "openai_event list" "string option"

fun responses_loop :: "bool \<Rightarrow> string \<Rightarrow> openai_event list \<Rightarrow> bool \<times> openai_io list" where
  "responses_loop includeMetaData m [] = (False, [])"
| "responses_loop includeMetaData m (OutputTextDelta t # events) =
     (let (stopped, out) = responses_loop includeMetaData m events
      in (stopped, OnTextOpenAI t None # out))"
| "responses_loop includeMetaData m (OutputTextDone # events) =
     (True, if includeMetaData then [OnTextOpenAI [] (Some m)] else [])"
| "responses_loop includeMetaData m (OtherOutput # events) =
     responses_loop includeMetaData m events"

definition openai_streamWithThinking ::
    "openai_client \<Rightarrow> string \<Rightarrow> bool \<Rightarrow> openai_response \<Rightarrow> (js_error + unit) \<times> openai_io list" where
  "openai_streamWithThinking cl prompt_arg includeMetaData response =
     (if \<not> client cl \<or> apiKeyMissing cl
      then (Inl (Error ''OpenAI client not initialized - missing API key''), [])
      else case (if truthy (prompt cl) then prompt cl else None) of
        None \<Rightarrow>
          (Inl (Error ''No manuscript prompt loaded. Call prepareFileAndCache() first.''), [])
      | Some manuscript \<Rightarrow>
          let fullInput = ''=== MANUSCRIPT ===\<newline>'' @ manuscript
                            @ ''\<newline>=== MANUSCRIPT ===\<newline>'' @ prompt_arg;
              request = ResponsesRequest (oa_model_name cl) fullInput
          in case response of
               RefusedOpenAI msg \<Rightarrow> (Inl (Error msg), [request])
             | Events events failure \<Rightarrow>
                 (let (stopped, out) = responses_loop includeMetaData (oa_model_name cl) events
                  in (if stopped then Inr ()
                      else case failure of None \<Rightarrow> Inr () | Some msg \<Rightarrow> Inl (Error msg),
                      request # out)))"

text \<open>
  The Completions client: the provider's answer is the text of the first choice, if
  there is one (the empty text otherwise); the metadata is appended to it before the
  single \<open>onText\<close> call.
\<close>

definition completions_streamWithThinking ::
    "openai_client \<Rightarrow> string \<Rightarrow> bool \<Rightarrow> (string + string option)
       \<Rightarrow> (js_error + unit) \<times> openai_io list" where
  "completions_streamWithThinking cl prompt_arg includeMetaData response =
     (if \<not> client cl \<or> apiKeyMissing cl
      then (Inl (Error ''OpenAI client not initialized - missing API key''), [])
      else case (if truthy (prompt cl) then prompt cl else None) of
        None \<Rightarrow>
          (Inl (Error ''No manuscript prompt loaded. Call prepareFileAndCache() first.''), [])
      | Some manuscript \<Rightarrow>
          let fullPrompt = ''=== MANUSCRIPT ===\<newline>'' @ manuscript
                             @ ''\<newline>=== MANUSCRIPT ===\<newline>'' @ prompt_arg;
              request = CompletionsRequest (oa_model_name cl) fullPrompt
          in case response of
               Inl msg \<Rightarrow> (Inl (Error msg), [request])
             | Inr choice \<Rightarrow>
                 (Inr (),
                  [request,
                   OnTextOpenAI (case choice of None \<Rightarrow> [] | Some t \<Rightarrow> t)
                     (if includeMetaData then Some (oa_model_name cl) else None)]))"

section \<open>The artifact cache\<close>

text \<open>
  Modelled from the spec: main.js requires \<open>./file-cache\<close> and calls its \<open>clear\<close> and
  \<open>getFiles\<close>, but the module itself is not among the sources. The spec's Artifact Cache
  keeps, per tool, the files recorded for it in insertion order without duplicates
  (\<open>recordArtifact\<close>, \<open>listArtifacts\<close>, \<open>clear\<close>, \<open>clearAll\<close>); main.js reads the \<open>path\<close>
  of each listed file.
\<close>

record cached_file =
  path :: string
  run :: string

type_synonym file_cache = "string \<Rightarrow> cached_file list"

text \<open>
  Modelled from the spec: \<open>recordArtifact(tool_id, run_id, path)\<close> of the absent
  file-cache module; a path already listed for the tool is not listed again.
\<close>

definition recordArtifact :: "string \<Rightarrow> string \<Rightarrow> string \<Rightarrow> file_cache \<Rightarrow> file_cache" where
  "recordArtifact tool_id rid p cache =
     (if p \<in> set (map path (cache tool_id)) then cache
      else cache(tool_id := cache tool_id @ [\<lparr> path = p, run = rid \<rparr>]))"

text \<open>
  Modelled from the spec: \<open>getFiles\<close> of the absent file-cache module, the spec's
  \<open>listArtifacts(tool_id)\<close>, the tool's files in insertion order.
\<close>

definition getFiles :: "file_cache \<Rightarrow> string \<Rightarrow> cached_file list" where
  "getFiles cache tool_id = cache tool_id"

text \<open>
  Modelled from the spec: \<open>clear(tool_id)\<close> and \<open>clearAll()\<close> of the absent file-cache
  module; they forget the files of one tool and of every tool.
\<close>

definition clear :: "string \<Rightarrow> file_cache \<Rightarrow> file_cache" where
  "clear tool_id cache = cache(tool_id := [])"

definition clearAll :: "file_cache \<Rightarrow> file_cache" where
  "clearAll cache = (\<lambda>tool_id. [])"

section \<open>Tool runs in the main process (main.js)\<close>

text \<open>
  The messages the main process sends to the tool window: \<open>tool-output\<close> with a run id
  and a text, \<open>tool-finished\<close> with a run id, an exit code and the created files, and
  \<open>tool-error\<close> with a run id and the error's message.
\<close>

datatype ipc_message =
    ToolOutput string string
  | ToolFinished string int "string list"
  | ToolError string string

text \<open>
  The state the handler reads and writes: whether \<open>toolSetupRunWindow\<close> is set and not
  destroyed, the names the tool registry knows, the artifact cache, and the messages sent
  through \<open>toolSetupRunWindow.webContents\<close> so far, oldest first.
\<close>

record main_state =
  toolSetupRunWindow :: bool
  toolRegistry :: "string list"
  fileCache :: file_cache
  webContents :: "ipc_message list"

text \<open>
  How the awaited \<open>executeToolById\<close> ends for the task: it resolves with a result whose
  \<open>outputFiles\<close> may be missing, or an error with a message is thrown (the tool rejects,
  or reading the result fails) and lands in the task's \<open>catch\<close>.
\<close>

record tool_result =
  outputFiles :: "string list option"

datatype tool_outcome = Resolved tool_result | Rejected string

text \<open>The background task of a run that waits for its tool to settle.\<close>

record pending_run =
  run_id :: string
  tool_name :: string

text \<open>Every send is guarded by the window check.\<close>

definition send :: "ipc_message \<Rightarrow> main_state \<Rightarrow> main_state" where
  "send m st =
     (if toolSetupRunWindow st then st\<lparr>webContents := webContents st @ [m]\<rparr> else st)"

definition sendOutput :: "string \<Rightarrow> string \<Rightarrow> main_state \<Rightarrow> main_state" where
  "sendOutput runId text_arg st = send (ToolOutput runId text_arg) st"

text \<open>\<open>[...new Set(xs)]\<close>: the elements of \<open>xs\<close> in order of first occurrence.\<close>

definition set_add :: "'a list \<Rightarrow> 'a \<Rightarrow> 'a list" where
  "set_add acc x = (if x \<in> set acc then acc else acc @ [x])"

definition js_set_spread :: "'a list \<Rightarrow> 'a list" where
  "js_set_spread xs = foldl set_add [] xs"

text \<open>The first output of a run, \<open>`Starting ${toolName}...\n\n`\<close>.\<close>

definition starting :: "string \<Rightarrow> string" where
  "starting toolName = ''Starting '' @ toolName @ ''...\<newline>\<newline>''"

text \<open>
  The handler of \<open>start-tool-run\<close>, with the run id that \<open>uuidv4()\<close> returns as an input.
  The body of the background task runs up to its first \<open>await\<close> before the handler
  returns: the starting message is sent, the tool is looked up (an unknown tool is
  reported at once), the tool's cache entry is cleared and the tool is started. The
  handler then returns the run id; the rest of the task is left pending.
\<close>

definition start_tool_run ::
    "string \<Rightarrow> string \<Rightarrow> main_state \<Rightarrow> (string \<times> pending_run option) \<times> main_state" where
  "start_tool_run toolName runId st =
     (let st1 = sendOutput runId (starting toolName) st
      in if toolName \<notin> set (toolRegistry st1)
         then ((runId, None), send (ToolError runId (''Tool not found: '' @ toolName)) st1)
         else ((runId, Some \<lparr> run_id = runId, tool_name = toolName \<rparr>),
               st1\<lparr>fileCache := clear toolName (fileCache st1)\<rparr>))"

text \<open>The rest of the background task, once the tool has settled.\<close>

definition finish_tool_run :: "pending_run \<Rightarrow> tool_outcome \<Rightarrow> main_state \<Rightarrow> main_state" where
  "finish_tool_run r outcome st =
     (case outcome of
        Rejected msg \<Rightarrow> send (ToolError (run_id r) msg) st
      | Resolved result \<Rightarrow>
          let cachedFiles = getFiles (fileCache st) (tool_name r);
              allFiles = js_set_spread
                           ((case outputFiles result of None \<Rightarrow> [] | Some fs \<Rightarrow> fs)
                            @ map path cachedFiles)
          in send (ToolFinished (run_id r) 0 allFiles) st)"

text \<open>
  The renderer reaches the main process through \<open>ipcRenderer.invoke\<close>: the call is
  answered by the handler registered for the channel, and fails with an error when no
  handler is registered. main.js registers a handler for \<open>start-tool-run\<close> and none for
  \<open>stop-tool\<close>, the channel of the preload script's \<open>stopTool\<close>.
\<close>

definition no_handler :: "string \<Rightarrow> js_error" where
  "no_handler channel =
     Error (''Error invoking remote method '' @ [CHR 0x27] @ channel @ [CHR 0x27]
            @ '': Error: No handler registered for '' @ [CHR 0x27] @ channel @ [CHR 0x27])"

definition ipcRenderer_invoke ::
    "string \<Rightarrow> (main_state \<Rightarrow> 'a \<times> main_state) option \<Rightarrow> main_state
       \<Rightarrow> (js_error + 'a) \<times> main_state" where
  "ipcRenderer_invoke channel handler st =
     (case handler of
        None \<Rightarrow> (Inl (no_handler channel), st)
      | Some h \<Rightarrow> (let (reply, st') = h st in (Inr reply, st')))"

definition startToolRun ::
    "string \<Rightarrow> string \<Rightarrow> main_state
       \<Rightarrow> (js_error + string \<times> pending_run option) \<times> main_state" where
  "startToolRun toolName runId st =
     ipcRenderer_invoke ''start-tool-run'' (Some (start_tool_run toolName runId)) st"

definition stopTool :: "string \<Rightarrow> main_state \<Rightarrow> (js_error + unit) \<times> main_state" where
  "stopTool runId st = ipcRenderer_invoke ''stop-tool'' None st"

text \<open>
  What can happen while a run's tool executes: the tool calls the \<open>sendOutput\<close> it was
  given, tool code records a file in the cache, the tool window is closed or a new one is
  created, the renderer calls \<open>stopTool\<close>.
\<close>

datatype run_event =
    Emit string
  | Record string string string
  | WindowClosed
  | WindowCreated
  | StopTool string

fun run_step :: "pending_run \<Rightarrow> main_state \<Rightarrow> run_event \<Rightarrow> main_state" where
  "run_step r st (Emit t) = sendOutput (run_id r) t st"
| "run_step r st (Record tool_id rid p) =
     st\<lparr>fileCache := recordArtifact tool_id rid p (fileCache st)\<rparr>"
| "run_step r st WindowClosed = st\<lparr>toolSetupRunWindow := False\<rparr>"
| "run_step r st WindowCreated = st\<lparr>toolSetupRunWindow := True\<rparr>"
| "run_step r st (StopTool rid) = snd (stopTool rid st)"

text \<open>A whole run: the handler, the events while the tool executes, the settlement.\<close>

definition tool_run ::
    "string \<Rightarrow> string \<Rightarrow> run_event list \<Rightarrow> tool_outcome \<Rightarrow> main_state \<Rightarrow> main_state" where
  "tool_run toolName runId evs outcome st =
     (case start_tool_run toolName runId st of
        ((rid, None), st1) \<Rightarrow> st1
      | ((rid, Some r), st1) \<Rightarrow> finish_tool_run r outcome (foldl (run_step r) st1 evs))"

text \<open>Reading the sent messages: those added since an earlier state, their kinds and texts.\<close>

definition notifications :: "main_state \<Rightarrow> main_state \<Rightarrow> ipc_message list" where
  "notifications st st' = drop (length (webContents st)) (webContents st')"

fun is_terminal :: "ipc_message \<Rightarrow> bool" where
  "is_terminal (ToolOutput rid t) = False"
| "is_terminal (ToolFinished rid code files) = True"
| "is_terminal (ToolError rid msg) = True"

fun message_run :: "ipc_message \<Rightarrow> string" where
  "message_run (ToolOutput rid t) = rid"
| "message_run (ToolFinished rid code files) = rid"
| "message_run (ToolError rid msg) = rid"

fun output_texts :: "ipc_message list \<Rightarrow> string list" where
  "output_texts [] = []"
| "output_texts (ToolOutput rid t # ms) = t # output_texts ms"
| "output_texts (m # ms) = output_texts ms"

fun emitted :: "run_event list \<Rightarrow> string list" where
  "emitted [] = []"
| "emitted (Emit t # evs) = t # emitted evs"
| "emitted (e # evs) = emitted evs"



section \<open>Reading traces\<close>

text \<open>The stream requests among the things a Claude call did.\<close>

fun stream_requests :: "io list \<Rightarrow> model_options list" where
  "stream_requests [] = []"
| "stream_requests (StreamRequest mo # xs) = mo # stream_requests xs"
| "stream_requests (x # xs) = stream_requests xs"

text \<open>The text deltas of a stream, and the visible texts among the callback's arguments.\<close>

fun text_deltas :: "stream_event list \<Rightarrow> string list" where
  "text_deltas [] = []"
| "text_deltas (ContentBlockDelta (TextDelta t) # events) = t # text_deltas events"
| "text_deltas (e # events) = text_deltas events"

fun texts_out :: "text_out list \<Rightarrow> string list" where
  "texts_out [] = []"
| "texts_out (Text t # outs) = t # texts_out outs"
| "texts_out (x # outs) = texts_out outs"

text \<open>
  The tool outputs that reach the window during a run, and whether the window exists
  after the run's events, from whether it exists at their beginning.
\<close>

fun delivered :: "bool \<Rightarrow> run_event list \<Rightarrow> string list" where
  "delivered w [] = []"
| "delivered w (Emit t # evs) = (if w then t # delivered w evs else delivered w evs)"
| "delivered w (WindowClosed # evs) = delivered False evs"
| "delivered w (WindowCreated # evs) = delivered True evs"
| "delivered w (e # evs) = delivered w evs"

fun window_after :: "bool \<Rightarrow> run_event list \<Rightarrow> bool" where
  "window_after w [] = w"
| "window_after w (WindowClosed # evs) = window_after False evs"
| "window_after w (WindowCreated # evs) = window_after True evs"
| "window_after w (e # evs) = window_after w evs"

text \<open>
  The main process right after the tool window was created: the window exists, nothing
  was sent to it, the cache is empty.
\<close>

definition initial_state :: "string list \<Rightarrow> main_state" where
  "initial_state tools =
     \<lparr> toolSetupRunWindow = True, toolRegistry = tools,
       fileCache = (\<lambda>tool_id. []), webContents = [] \<rparr>"

section \<open>Properties of the token budget calculation\<close>

text \<open>
  Claim C7. On the scenario input (prompt of 190000 tokens, context window 200000,
  hard limit 32000, desired visible output 8000, preferred reasoning budget 20000) the
  calculator returns 10000 available tokens, 10000 maximum output tokens, a reasoning
  budget of 2000 and flags the prompt as too large. The same holds under the shipped
  defaults (hard limit 128000, preferred reasoning budget 32000).
\<close>

theorem scenario_190000_budgets:
  "calculateTokenBudgets
      (default_config\<lparr>betas_max_tokens := 32000, thinking_budget_tokens := 20000\<rparr>) 190000
     = \<lparr> contextWindow = 200000, promptTokens = 190000, availableTokens = 10000,
         maxTokens = 10000, thinkingBudget = 2000, desiredOutputTokens = 8000,
         betasMaxTokens = 32000, configuredThinkingBudget = 20000,
         capThinkingBudget = False, isPromptTooLarge = True \<rparr>
   \<and> availableTokens (calculateTokenBudgets default_config 190000) = 10000
   \<and> maxTokens (calculateTokenBudgets default_config 190000) = 10000
   \<and> thinkingBudget (calculateTokenBudgets default_config 190000) = 2000
   \<and> isPromptTooLarge (calculateTokenBudgets default_config 190000)"
  by (simp add: calculateTokenBudgets_def default_config_def Let_def)

text \<open>
  Claim C3, as the code has it. The claim says that for a prompt larger than the context
  window the available tokens are clamped to 0; the code returns the difference itself.
  At 200001 prompt tokens under the shipped configuration the available tokens are - 1.
\<close>

theorem oversized_prompt_available_counterexample:
  "context_window default_config < 200001
   \<and> availableTokens (calculateTokenBudgets default_config 200001) = - 1
   \<and> availableTokens (calculateTokenBudgets default_config 200001) \<noteq> 0"
  by (simp add: calculateTokenBudgets_def default_config_def Let_def)

text \<open>
  Claim C3, amended. For every prompt larger than the context window the available
  tokens are the context window minus the prompt tokens, a negative number, and the
  prompt is flagged as too large, whenever the desired output and the configured
  thinking budget do not sum to a negative number.
\<close>

theorem oversized_prompt_available_negative:
  assumes "context_window c < p"
    and "0 \<le> desired_output_tokens c + thinking_budget_tokens c"
  shows "availableTokens (calculateTokenBudgets c p) = context_window c - p
       \<and> availableTokens (calculateTokenBudgets c p) < 0
       \<and> isPromptTooLarge (calculateTokenBudgets c p)"
  using assms by (auto simp add: calculateTokenBudgets_def Let_def)

theorem oversized_prompt_available_negative_witness:
  "context_window default_config < 200001
   \<and> 0 \<le> desired_output_tokens default_config + thinking_budget_tokens default_config
   \<and> availableTokens (calculateTokenBudgets default_config 200001) = - 1
   \<and> isPromptTooLarge (calculateTokenBudgets default_config 200001)"
  using oversized_prompt_available_negative [of default_config 200001]
  by (simp add: default_config_def)



text \<open>
  Claim C6, as the code has it. The claim says the thinking budget is clamped to 0 when
  the desired output exceeds the maximum output tokens. At 195000 prompt tokens under
  the shipped configuration the maximum is 5000, the desired output 8000, and the
  returned thinking budget is - 3000.
\<close>

theorem thinking_budget_negative_counterexample:
  "maxTokens (calculateTokenBudgets default_config 195000) = 5000
   \<and> desired_output_tokens default_config = 8000
   \<and> thinkingBudget (calculateTokenBudgets default_config 195000) = - 3000
   \<and> thinkingBudget (calculateTokenBudgets default_config 195000) < 0"
  by (simp add: calculateTokenBudgets_def default_config_def Let_def)

text \<open>
  Claim C6, amended. The returned thinking budget is the maximum output tokens minus the
  desired output, capped from above by \<open>max_thinking_budget\<close> and not clamped from
  below: with a non-negative cap it is negative exactly when the desired output exceeds
  the maximum output tokens.
\<close>

theorem thinking_budget_unclamped:
  assumes "0 \<le> max_thinking_budget c"
  shows "thinkingBudget (calculateTokenBudgets c p)
           = min (maxTokens (calculateTokenBudgets c p) - desired_output_tokens c)
                 (max_thinking_budget c)
       \<and> (thinkingBudget (calculateTokenBudgets c p) < 0
            \<longleftrightarrow> maxTokens (calculateTokenBudgets c p) < desired_output_tokens c)"
  using assms by (auto simp add: calculateTokenBudgets_def Let_def)

theorem thinking_budget_unclamped_witness:
  "0 \<le> max_thinking_budget default_config
   \<and> thinkingBudget (calculateTokenBudgets default_config 195000) = min (5000 - 8000) 20000
   \<and> thinkingBudget (calculateTokenBudgets default_config 195000) < 0
   \<and> maxTokens (calculateTokenBudgets default_config 195000) < desired_output_tokens default_config"
  using thinking_budget_unclamped [of default_config 195000]
  by (simp add: default_config_def calculateTokenBudgets_def Let_def)

section \<open>Properties of the provider clients\<close>

lemma stream_requests_append:
  "stream_requests (xs @ ys) = stream_requests xs @ stream_requests ys"
  by (induction xs rule: stream_requests.induct) simp_all

lemma stream_requests_OnText: "stream_requests (map OnText ts) = []"
  by (induction ts) simp_all

text \<open>
  Claim C1, as the code has it. The claim says the request carries the pair the
  calculator computed from the prompt tokens. With a prompt of 190000 tokens under the
  shipped configuration the calculator returns 10000 and 2000, and the request carries
  32000 and 20000, the configured \<open>max_tokens\<close> and \<open>max_thinking_budget\<close>; prompt and
  requested output together exceed the context window of 200000.
\<close>

theorem stream_request_budget_counterexample:
  "snd (claude_streamWithThinking (claude_constructor default_config (Some ''key''))
          ''p'' False False False (Some 190000) (Opened [] [] None))
     = [CountTokensRequest ''p'', OnText (PromptWarning 190000),
        StreamRequest \<lparr> mo_model = ''claude-3-7-sonnet-20250219'', mo_max_tokens = 32000,
                        mo_content = ''p'', mo_budget_tokens = 20000 \<rparr>]
   \<and> maxTokens (calculateTokenBudgets default_config 190000) = 10000
   \<and> thinkingBudget (calculateTokenBudgets default_config 190000) = 2000
   \<and> context_window default_config < 190000 + 32000"
  by (simp add: claude_streamWithThinking_def claude_constructor_def truthy_def countTokens_def
        calculateTokenBudgets_def default_config_def Let_def)

text \<open>
  Claim C1, amended. Every stream-generate call of a configured Claude client sends
  exactly one stream request, and its maximum output tokens and thinking budget are the
  configured \<open>max_tokens\<close> and \<open>max_thinking_budget\<close>, whatever the prompt's token count
  is.
\<close>

theorem stream_request_sends_configured_limits:
  assumes "client cl" and "\<not> apiKeyMissing cl"
  shows "map (\<lambda>mo. (mo_max_tokens mo, mo_budget_tokens mo))
           (stream_requests
              (snd (claude_streamWithThinking cl p noCache includeMetaData includeThinking
                      count_response response)))
         = [(max_tokens (cfg cl), max_thinking_budget (cfg cl))]"
  using assms
  by (simp add: claude_streamWithThinking_def Let_def stream_requests_append
        stream_requests_OnText split: stream_response.split option.split)

theorem stream_request_sends_configured_limits_witness:
  "client (claude_constructor default_config (Some ''key''))
   \<and> \<not> apiKeyMissing (claude_constructor default_config (Some ''key''))
   \<and> map (\<lambda>mo. (mo_max_tokens mo, mo_budget_tokens mo))
        (stream_requests
           (snd (claude_streamWithThinking (claude_constructor default_config (Some ''key''))
                   ''p'' False True False (Some 1000)
                   (Opened [] [ContentBlockDelta (TextDelta ''hi''), MessageStop] None))))
      = [(32000, 20000)]
   \<and> maxTokens (calculateTokenBudgets default_config 1000) = 128000"
  using stream_request_sends_configured_limits
          [of "claude_constructor default_config (Some ''key'')" "''p''" False True False
              "Some 1000" "Opened [] [ContentBlockDelta (TextDelta ''hi''), MessageStop] None"]
  by (simp add: claude_constructor_def truthy_def default_config_def calculateTokenBudgets_def
        Let_def)

text \<open>
  Claim C4, as the code has it. The claim says every client fails with a
  context-not-prepared error when no manuscript is loaded. A Claude client with an API
  key and no manuscript sends the bare prompt to the provider and returns normally.
\<close>

theorem claude_without_manuscript_counterexample:
  "manuscriptContent (claude_constructor default_config (Some ''key'')) = None
   \<and> claude_streamWithThinking (claude_constructor default_config (Some ''key''))
        ''p'' False False False (Some 10) (Opened [] [ContentBlockDelta (TextDelta ''hi'')] None)
      = (Inr (),
         [CountTokensRequest ''p'', OnText (PromptWarning 10),
          StreamRequest \<lparr> mo_model = ''claude-3-7-sonnet-20250219'', mo_max_tokens = 32000,
                          mo_content = ''p'', mo_budget_tokens = 20000 \<rparr>,
          OnText (Text ''hi'')])"
  by (simp add: claude_streamWithThinking_def claude_constructor_def truthy_def countTokens_def
        calculateTokenBudgets_def default_config_def Let_def)

text \<open>
  Claim C4, amended. Each of the three clients fails a stream-generate call made without
  an API key with its key-missing error before anything is sent to the provider. The two
  OpenAI clients fail a call made with a key and without a loaded manuscript with a
  different error, again before anything is sent. The Claude client has no such check:
  with a key and without a manuscript it sends the prompt alone.
\<close>

theorem stream_guards:
  "(\<not> client c \<or> apiKeyMissing c \<longrightarrow>
      claude_streamWithThinking c p noCache includeMetaData includeThinking count_response response
        = (Inl (Error ''Claude API client not initialized - API key missing''), []))
   \<and> (\<not> client a \<or> apiKeyMissing a \<longrightarrow>
      openai_streamWithThinking a p includeMetaData response_a
        = (Inl (Error ''OpenAI client not initialized - missing API key''), [])
      \<and> completions_streamWithThinking a p includeMetaData response_b
        = (Inl (Error ''OpenAI client not initialized - missing API key''), []))
   \<and> (client a \<and> \<not> apiKeyMissing a \<and> \<not> truthy (prompt a) \<longrightarrow>
      openai_streamWithThinking a p includeMetaData response_a
        = (Inl (Error ''No manuscript prompt loaded. Call prepareFileAndCache() first.''), [])
      \<and> completions_streamWithThinking a p includeMetaData response_b
        = (Inl (Error ''No manuscript prompt loaded. Call prepareFileAndCache() first.''), []))
   \<and> (client c \<and> \<not> apiKeyMissing c \<and> \<not> truthy (manuscriptContent c) \<longrightarrow>
      map mo_content
        (stream_requests
           (snd (claude_streamWithThinking c p noCache includeMetaData includeThinking
                   count_response response))) = [p])
   \<and> Error ''No manuscript prompt loaded. Call prepareFileAndCache() first.''
        \<noteq> Error ''OpenAI client not initialized - missing API key''"
  by (auto simp add: claude_streamWithThinking_def openai_streamWithThinking_def
        completions_streamWithThinking_def truthy_def Let_def stream_requests_append
        stream_requests_OnText split: stream_response.split option.split)

theorem stream_guards_witness:
  "apiKeyMissing (claude_constructor default_config None)
   \<and> apiKeyMissing (openai_constructor ''gpt-4.1-2025-04-14'' None)
   \<and> client (openai_constructor ''gpt-4.1-2025-04-14'' (Some ''key''))
   \<and> \<not> apiKeyMissing (openai_constructor ''gpt-4.1-2025-04-14'' (Some ''key''))
   \<and> \<not> truthy (prompt (openai_constructor ''gpt-4.1-2025-04-14'' (Some ''key'')))
   \<and> client (claude_constructor default_config (Some ''key''))
   \<and> \<not> apiKeyMissing (claude_constructor default_config (Some ''key''))
   \<and> \<not> truthy (manuscriptContent (claude_constructor default_config (Some ''key'')))
   \<and> claude_streamWithThinking (claude_constructor default_config None)
        ''p'' False True False (Some 10) (Opened [] [] None)
      = (Inl (Error ''Claude API client not initialized - API key missing''), [])
   \<and> openai_streamWithThinking (openai_constructor ''gpt-4.1-2025-04-14'' None)
        ''p'' True (Events [] None)
      = (Inl (Error ''OpenAI client not initialized - missing API key''), [])
   \<and> completions_streamWithThinking (openai_constructor ''gpt-4.1-2025-04-14'' None)
        ''p'' True (Inr None)
      = (Inl (Error ''OpenAI client not initialized - missing API key''), [])
   \<and> openai_streamWithThinking (openai_constructor ''gpt-4.1-2025-04-14'' (Some ''key''))
        ''p'' True (Events [] None)
      = (Inl (Error ''No manuscript prompt loaded. Call prepareFileAndCache() first.''), [])
   \<and> completions_streamWithThinking (openai_constructor ''gpt-4.1-2025-04-14'' (Some ''key''))
        ''p'' True (Inr None)
      = (Inl (Error ''No manuscript prompt loaded. Call prepareFileAndCache() first.''), [])
   \<and> map mo_content
        (stream_requests
           (snd (claude_streamWithThinking (claude_constructor default_config (Some ''key''))
                   ''p'' False True False (Some 10) (Opened [] [] None)))) = [''p'']"
  using stream_guards [of "claude_constructor default_config None" "''p''" False True False
          "Some 10" "Opened [] [] None" "openai_constructor ''gpt-4.1-2025-04-14'' None"
          "Events [] None" "Inr None"]
        stream_guards [of "claude_constructor default_config (Some ''key'')" "''p''" False True
          False "Some 10" "Opened [] [] None"
          "openai_constructor ''gpt-4.1-2025-04-14'' (Some ''key'')"
          "Events [] None" "Inr None"]
  by (simp add: claude_constructor_def openai_constructor_def truthy_def)

section \<open>Properties of tool runs\<close>

subsection \<open>Auxiliary facts\<close>

lemmas run_defs = tool_run_def start_tool_run_def finish_tool_run_def sendOutput_def send_def
  initial_state_def starting_def notifications_def stopTool_def ipcRenderer_invoke_def
  js_set_spread_def set_add_def getFiles_def clear_def recordArtifact_def Let_def

lemma stopTool_rejects: "stopTool rid st = (Inl (no_handler ''stop-tool''), st)"
  by (simp add: stopTool_def ipcRenderer_invoke_def)



lemma texts_out_append: "texts_out (xs @ ys) = texts_out xs @ texts_out ys"
  by (induction xs rule: texts_out.induct) simp_all

lemma stream_loop_text_deltas:
  "texts_out (stream_loop includeMetaData includeThinking c pt budgets flags events)
     = text_deltas events"
proof (induction events arbitrary: flags)
  case Nil
  show ?case by simp
next
  case (Cons e events)
  obtain isThinking isResponding where f: "flags = (isThinking, isResponding)"
    by (cases flags)
  show ?case
  proof (cases e)
    case (ContentBlockStart b)
    then show ?thesis using Cons f by (cases b) (simp_all add: texts_out_append)
  next
    case (ContentBlockDelta d)
    then show ?thesis using Cons f by (cases d) (simp_all add: texts_out_append)
  next
    case MessageStop
    then show ?thesis using Cons f by (simp add: texts_out_append)
  next
    case OtherEvent
    then show ?thesis using Cons f by (simp add: texts_out_append)
  qed
qed

lemma send_webContents:
  "webContents (send m st) = webContents st @ (if toolSetupRunWindow st then [m] else [])"
  by (simp add: send_def)

lemma send_other [simp]:
  "toolSetupRunWindow (send m st) = toolSetupRunWindow st"
  "toolRegistry (send m st) = toolRegistry st"
  "fileCache (send m st) = fileCache st"
  by (simp_all add: send_def)

lemma foldl_run_step_webContents:
  "webContents (foldl (run_step r) st evs)
     = webContents st @ map (ToolOutput (run_id r)) (delivered (toolSetupRunWindow st) evs)"
proof (induction evs arbitrary: st)
  case Nil
  show ?case by simp
next
  case (Cons e evs)
  show ?case
    by (cases e) (simp_all add: Cons sendOutput_def send_webContents stopTool_rejects)
qed

lemma foldl_run_step_window:
  "toolSetupRunWindow (foldl (run_step r) st evs) = window_after (toolSetupRunWindow st) evs"
proof (induction evs arbitrary: st)
  case Nil
  show ?case by simp
next
  case (Cons e evs)
  show ?case
    by (cases e) (simp_all add: Cons sendOutput_def stopTool_rejects)
qed

lemma delivered_subseq: "subseq (delivered w evs) (emitted evs)"
  by (induction w evs rule: delivered.induct) auto

lemma delivered_all:
  "WindowClosed \<notin> set evs \<Longrightarrow> delivered True evs = emitted evs \<and> window_after True evs"
proof (induction evs)
  case Nil
  show ?case by simp
next
  case (Cons e evs)
  then show ?case by (cases e) simp_all
qed

lemma output_texts_append: "output_texts (xs @ ys) = output_texts xs @ output_texts ys"
  by (induction xs rule: output_texts.induct) simp_all

lemma output_texts_map [simp]: "output_texts (map (ToolOutput rid) ts) = ts"
  by (induction ts) simp_all

lemma output_texts_terminal: "is_terminal m \<Longrightarrow> output_texts [m] = []"
  by (cases m) simp_all

lemma filter_terminal_outputs [simp]: "filter is_terminal (map (ToolOutput rid) ts) = []"
  by (induction ts) simp_all

lemma list_ex_terminal_outputs [simp]: "\<not> list_ex is_terminal (map (ToolOutput rid) ts)"
  by (induction ts) simp_all

lemma list_all_run_outputs [simp]:
  "list_all (\<lambda>m. message_run m = rid) (map (ToolOutput rid) ts)"
  by (induction ts) simp_all

lemma notifications_append: "webContents st' = webContents st @ N \<Longrightarrow> notifications st st' = N"
  by (simp add: notifications_def)

lemma finish_tool_run_webContents:
  "\<exists>m. is_terminal m \<and> message_run m = run_id r
       \<and> webContents (finish_tool_run r outcome st)
           = webContents st @ (if toolSetupRunWindow st then [m] else [])"
proof (cases outcome)
  case (Resolved res)
  let ?files = "js_set_spread
                  ((case outputFiles res of None \<Rightarrow> [] | Some fs \<Rightarrow> fs)
                   @ map path (getFiles (fileCache st) (tool_name r)))"
  show ?thesis
    using Resolved
    by (intro exI [of _ "ToolFinished (run_id r) 0 ?files"])
       (simp add: finish_tool_run_def send_webContents Let_def)
next
  case (Rejected msg)
  show ?thesis
    using Rejected
    by (intro exI [of _ "ToolError (run_id r) msg"])
       (simp add: finish_tool_run_def send_webContents)
qed

lemma start_tool_run_unregistered:
  assumes "toolName \<notin> set (toolRegistry st)"
  shows "tool_run toolName runId evs outcome st = snd (start_tool_run toolName runId st)"
    and "webContents (snd (start_tool_run toolName runId st))
           = webContents st
             @ (if toolSetupRunWindow st
                then [ToolOutput runId (starting toolName),
                      ToolError runId (''Tool not found: '' @ toolName)]
                else [])"
  using assms
  by (simp_all add: tool_run_def start_tool_run_def sendOutput_def send_webContents Let_def)

lemma tool_run_registered_unfold:
  assumes "toolName \<in> set (toolRegistry st)"
  shows "tool_run toolName runId evs outcome st
           = finish_tool_run \<lparr> run_id = runId, tool_name = toolName \<rparr> outcome
               (foldl (run_step \<lparr> run_id = runId, tool_name = toolName \<rparr>)
                  ((sendOutput runId (starting toolName) st)
                     \<lparr>fileCache := clear toolName (fileCache st)\<rparr>) evs)"
  using assms
  by (simp add: tool_run_def start_tool_run_def sendOutput_def Let_def)

lemma tool_run_registered:
  assumes "toolName \<in> set (toolRegistry st)"
  shows "\<exists>m. is_terminal m \<and> message_run m = runId
           \<and> webContents (tool_run toolName runId evs outcome st)
               = webContents st
                 @ (if toolSetupRunWindow st then [ToolOutput runId (starting toolName)] else [])
                 @ map (ToolOutput runId) (delivered (toolSetupRunWindow st) evs)
                 @ (if window_after (toolSetupRunWindow st) evs then [m] else [])"
proof -
  let ?r = "\<lparr> run_id = runId, tool_name = toolName \<rparr>"
  let ?st1 = "(sendOutput runId (starting toolName) st)
                \<lparr>fileCache := clear toolName (fileCache st)\<rparr>"
  let ?st2 = "foldl (run_step ?r) ?st1 evs"
  have run: "tool_run toolName runId evs outcome st = finish_tool_run ?r outcome ?st2"
    by (rule tool_run_registered_unfold [OF assms])
  have w1: "toolSetupRunWindow ?st1 = toolSetupRunWindow st"
    by (simp add: sendOutput_def)
  have c1: "webContents ?st1
              = webContents st
                @ (if toolSetupRunWindow st then [ToolOutput runId (starting toolName)] else [])"
    by (simp add: sendOutput_def send_webContents)
  have c2: "webContents ?st2
              = webContents ?st1
                @ map (ToolOutput runId) (delivered (toolSetupRunWindow st) evs)"
    using foldl_run_step_webContents [of ?r ?st1 evs] w1 by simp
  have w2: "toolSetupRunWindow ?st2 = window_after (toolSetupRunWindow st) evs"
    using foldl_run_step_window [of ?r ?st1 evs] w1 by simp
  obtain m where m: "is_terminal m" "message_run m = runId"
    "webContents (finish_tool_run ?r outcome ?st2)
       = webContents ?st2 @ (if toolSetupRunWindow ?st2 then [m] else [])"
    using finish_tool_run_webContents [of ?r outcome ?st2] by auto
  show ?thesis
    using m run c1 c2 w2 by (intro exI [of _ m]) simp
qed

lemma tool_run_window:
  "toolName \<in> set (toolRegistry st) \<Longrightarrow>
   toolSetupRunWindow (tool_run toolName runId evs outcome st)
     = window_after (toolSetupRunWindow st) evs"
  by (cases outcome)
     (simp_all add: tool_run_def start_tool_run_def finish_tool_run_def sendOutput_def Let_def
        foldl_run_step_window)






subsection \<open>Cancellation\<close>



subsection \<open>Starting a run and reporting its failure\<close>

text \<open>
  Claim C8, as the code has it. The claim says any failure during the run is delivered
  as an error notification with the run id. When the tool window is closed before the
  tool fails, nothing is sent for the failure.
\<close>

theorem failure_not_delivered_counterexample:
  "webContents
     (tool_run ''t'' ''run-1'' [Emit ''a'', WindowClosed] (Rejected ''boom'')
        (initial_state [''t'']))
     = [ToolOutput ''run-1'' (starting ''t''), ToolOutput ''run-1'' ''a'']"
  by (simp add: run_defs)

text \<open>
  Claim C8, amended. Starting a run never throws: the reply is the run id, given while
  the run's task is still pending when the tool is known. A failure of the run (an
  unknown tool, or the tool's execution failing) is sent as a \<open>tool-error\<close> message
  carrying that run id when the tool window exists at that moment; when it does not, no
  terminal message is sent for the run.
\<close>

theorem start_replies_failure_notified:
  "fst (startToolRun toolName runId st)
     = Inr (runId, if toolName \<in> set (toolRegistry st)
                   then Some \<lparr> run_id = runId, tool_name = toolName \<rparr> else None)
   \<and> (toolSetupRunWindow st \<and> toolName \<notin> set (toolRegistry st) \<longrightarrow>
        last (webContents (snd (startToolRun toolName runId st)))
          = ToolError runId (''Tool not found: '' @ toolName))
   \<and> (toolName \<in> set (toolRegistry st)
        \<and> toolSetupRunWindow (tool_run toolName runId evs (Rejected msg) st) \<longrightarrow>
        last (webContents (tool_run toolName runId evs (Rejected msg) st))
          = ToolError runId msg)
   \<and> (toolName \<in> set (toolRegistry st)
        \<and> \<not> toolSetupRunWindow (tool_run toolName runId evs (Rejected msg) st) \<longrightarrow>
        \<not> list_ex is_terminal
            (notifications st (tool_run toolName runId evs (Rejected msg) st)))"
proof -
  have a: "fst (startToolRun toolName runId st)
             = Inr (runId, if toolName \<in> set (toolRegistry st)
                           then Some \<lparr> run_id = runId, tool_name = toolName \<rparr> else None)"
    by (simp add: startToolRun_def ipcRenderer_invoke_def start_tool_run_def sendOutput_def
          Let_def split_def)
  have b: "last (webContents (snd (startToolRun toolName runId st)))
             = ToolError runId (''Tool not found: '' @ toolName)"
    if "toolSetupRunWindow st" "toolName \<notin> set (toolRegistry st)"
    using that
    by (simp add: startToolRun_def ipcRenderer_invoke_def start_tool_run_def sendOutput_def
          send_def Let_def split_def)
  have c: "last (webContents (tool_run toolName runId evs (Rejected msg) st))
             = ToolError runId msg"
    if reg: "toolName \<in> set (toolRegistry st)"
      and alive: "toolSetupRunWindow (tool_run toolName runId evs (Rejected msg) st)"
  proof -
    let ?r = "\<lparr> run_id = runId, tool_name = toolName \<rparr>"
    let ?st2 = "foldl (run_step ?r)
                  ((sendOutput runId (starting toolName) st)
                     \<lparr>fileCache := clear toolName (fileCache st)\<rparr>) evs"
    have run: "tool_run toolName runId evs (Rejected msg) st
                 = finish_tool_run ?r (Rejected msg) ?st2"
      by (rule tool_run_registered_unfold [OF reg])
    have "toolSetupRunWindow ?st2"
      using alive unfolding run by (simp add: finish_tool_run_def)
    then show ?thesis
      unfolding run by (simp add: finish_tool_run_def send_webContents)
  qed
  have d: "\<not> list_ex is_terminal
              (notifications st (tool_run toolName runId evs (Rejected msg) st))"
    if reg: "toolName \<in> set (toolRegistry st)"
      and closed: "\<not> toolSetupRunWindow (tool_run toolName runId evs (Rejected msg) st)"
  proof -
    let ?w = "toolSetupRunWindow st"
    have wa: "\<not> window_after ?w evs"
      using closed tool_run_window [OF reg] by simp
    obtain m where
      W: "webContents (tool_run toolName runId evs (Rejected msg) st)
            = webContents st
              @ ((if ?w then [ToolOutput runId (starting toolName)] else [])
                 @ map (ToolOutput runId) (delivered ?w evs)
                 @ (if window_after ?w evs then [m] else []))"
      using tool_run_registered [OF reg, of runId evs "Rejected msg"] by auto
    show ?thesis
      unfolding notifications_append [OF W] using wa by simp
  qed
  show ?thesis using a b c d by blast
qed

theorem start_replies_failure_notified_witness:
  "toolSetupRunWindow (initial_state [''t''])
   \<and> ''u'' \<notin> set (toolRegistry (initial_state [''t'']))
   \<and> ''t'' \<in> set (toolRegistry (initial_state [''t'']))
   \<and> toolSetupRunWindow
        (tool_run ''t'' ''run-1'' [Emit ''a''] (Rejected ''boom'') (initial_state [''t'']))
   \<and> \<not> toolSetupRunWindow
        (tool_run ''t'' ''run-1'' [WindowClosed] (Rejected ''boom'') (initial_state [''t'']))
   \<and> fst (startToolRun ''t'' ''run-1'' (initial_state [''t'']))
        = Inr (''run-1'', Some \<lparr> run_id = ''run-1'', tool_name = ''t'' \<rparr>)
   \<and> webContents (snd (startToolRun ''u'' ''run-2'' (initial_state [''t''])))
        = [ToolOutput ''run-2'' (starting ''u''), ToolError ''run-2'' ''Tool not found: u'']
   \<and> webContents
        (tool_run ''t'' ''run-1'' [Emit ''a''] (Rejected ''boom'') (initial_state [''t'']))
        = [ToolOutput ''run-1'' (starting ''t''), ToolOutput ''run-1'' ''a'',
           ToolError ''run-1'' ''boom'']"
  using start_replies_failure_notified [of "''t''" "''run-1''" "initial_state [''t'']"
          "[Emit ''a'']" "''boom''"]
        start_replies_failure_notified [of "''u''" "''run-2''" "initial_state [''t'']"
          "[]" "''boom''"]
        start_replies_failure_notified [of "''t''" "''run-1''" "initial_state [''t'']"
          "[WindowClosed]" "''boom''"]
  by (simp add: run_defs startToolRun_def)

subsection \<open>The sequence of messages of a run\<close>

text \<open>
  Claim C9, as the code has it. The claim says the sequence a run's subscriber observes
  ends with exactly one terminal event. When the tool window is closed during the run,
  the messages sent for the run end with a tool output and no terminal message follows,
  although the tool finished.
\<close>

theorem closed_window_no_terminal_counterexample:
  "notifications (initial_state [''t''])
     (tool_run ''t'' ''run-1'' [Emit ''a'', WindowClosed, Emit ''b'']
        (Resolved \<lparr> outputFiles = None \<rparr>) (initial_state [''t'']))
     = [ToolOutput ''run-1'' (starting ''t''), ToolOutput ''run-1'' ''a'']
   \<and> \<not> list_ex is_terminal
         (notifications (initial_state [''t''])
            (tool_run ''t'' ''run-1'' [Emit ''a'', WindowClosed, Emit ''b'']
               (Resolved \<lparr> outputFiles = None \<rparr>) (initial_state [''t''])))"
  by (simp add: run_defs)

text \<open>
  Claim C9, amended. The messages a run sends to the tool window are appended to those
  sent before, all carry the run's id, contain at most one terminal message
  (\<open>tool-finished\<close> or \<open>tool-error\<close>) and none before their last position, and their
  output texts are, in order, a selection of the starting text followed by the tool's
  outputs. When the window exists at the start and is not closed during the run, the
  first message is the starting output, the last is the one terminal message, and for a
  known tool the output texts are the starting text and all of the tool's outputs in the
  order they were emitted. The stream loop of the Claude client, which produces such
  outputs, passes the text deltas of its stream on in the order of the stream.
\<close>

theorem run_notifications_shape:
  "(let N = notifications st (tool_run toolName runId evs outcome st) in
      webContents (tool_run toolName runId evs outcome st) = webContents st @ N
    \<and> list_all (\<lambda>m. message_run m = runId) N
    \<and> length (filter is_terminal N) \<le> 1
    \<and> \<not> list_ex is_terminal (butlast N)
    \<and> subseq (output_texts N) (starting toolName # emitted evs)
    \<and> (toolSetupRunWindow st \<and> WindowClosed \<notin> set evs \<longrightarrow>
         hd N = ToolOutput runId (starting toolName) \<and> is_terminal (last N)
         \<and> (toolName \<in> set (toolRegistry st) \<longrightarrow>
              output_texts N = starting toolName # emitted evs)))
   \<and> texts_out (stream_loop includeMetaData includeThinking c pt budgets flags events)
       = text_deltas events"
proof (cases "toolName \<in> set (toolRegistry st)")
  case False
  let ?X = "if toolSetupRunWindow st
            then [ToolOutput runId (starting toolName),
                  ToolError runId (''Tool not found: '' @ toolName)]
            else []"
  have W: "webContents (tool_run toolName runId evs outcome st) = webContents st @ ?X"
    using start_tool_run_unregistered [OF False] by simp
  have N: "notifications st (tool_run toolName runId evs outcome st) = ?X"
    by (rule notifications_append [OF W])
  show ?thesis
    unfolding Let_def N using W False by (simp add: stream_loop_text_deltas)
next
  case True
  let ?w = "toolSetupRunWindow st"
  obtain m where m: "is_terminal m" "message_run m = runId"
    and W: "webContents (tool_run toolName runId evs outcome st)
              = webContents st
                @ ((if ?w then [ToolOutput runId (starting toolName)] else [])
                   @ map (ToolOutput runId) (delivered ?w evs)
                   @ (if window_after ?w evs then [m] else []))"
    using tool_run_registered [OF True, of runId evs outcome] by auto
  let ?A = "if ?w then [ToolOutput runId (starting toolName)] else []"
  let ?D = "map (ToolOutput runId) (delivered ?w evs)"
  let ?T = "if window_after ?w evs then [m] else []"
  have N: "notifications st (tool_run toolName runId evs outcome st) = ?A @ ?D @ ?T"
    by (rule notifications_append [OF W])
  have p1: "list_all (\<lambda>m. message_run m = runId) (?A @ ?D @ ?T)"
    using m by simp
  have p2: "length (filter is_terminal (?A @ ?D @ ?T)) \<le> 1"
    using m by simp
  have p3: "\<not> list_ex is_terminal (butlast (?A @ ?D @ ?T))"
  proof (cases "window_after ?w evs")
    case True
    then have "butlast (?A @ ?D @ ?T) = ?A @ ?D"
      by (simp add: butlast_append)
    then show ?thesis by simp
  next
    case False
    have "\<not> list_ex is_terminal (?A @ ?D)" by simp
    then have "\<not> list_ex is_terminal (butlast (?A @ ?D))"
      by (metis in_set_butlastD list_ex_iff)
    then show ?thesis using False by simp
  qed
  have texts: "output_texts (?A @ ?D @ ?T)
                 = (if ?w then [starting toolName] else []) @ delivered ?w evs"
    using m by (simp add: output_texts_append output_texts_terminal)
  have p4: "subseq (output_texts (?A @ ?D @ ?T)) (starting toolName # emitted evs)"
    unfolding texts using delivered_subseq [of ?w evs] by auto
  have p5: "hd (?A @ ?D @ ?T) = ToolOutput runId (starting toolName)
            \<and> is_terminal (last (?A @ ?D @ ?T))
            \<and> output_texts (?A @ ?D @ ?T) = starting toolName # emitted evs"
    if "?w" "WindowClosed \<notin> set evs"
    unfolding texts using that m delivered_all [of evs] by simp
  show ?thesis
    unfolding Let_def N using W p1 p2 p3 p4 p5 stream_loop_text_deltas by blast
qed

theorem run_notifications_shape_witness:
  "toolSetupRunWindow (initial_state [''t''])
   \<and> WindowClosed \<notin> set [Emit ''a'', Emit ''b'']
   \<and> ''t'' \<in> set (toolRegistry (initial_state [''t'']))
   \<and> notifications (initial_state [''t''])
        (tool_run ''t'' ''run-1'' [Emit ''a'', Emit ''b'']
           (Resolved \<lparr> outputFiles = None \<rparr>) (initial_state [''t'']))
      = [ToolOutput ''run-1'' (starting ''t''), ToolOutput ''run-1'' ''a'',
         ToolOutput ''run-1'' ''b'', ToolFinished ''run-1'' 0 []]"
  using run_notifications_shape [of "initial_state [''t'']" "''t''" "''run-1''"
          "[Emit ''a'', Emit ''b'']" "Resolved \<lparr> outputFiles = None \<rparr>"]
  by (simp add: run_defs)

subsection \<open>The files a finished run reports\<close>



end
